theory Spec2Isabelle
  imports Complex_Main "HOL-Library.Sublist" "HOL-Library.List_Lexorder" "HOL-Library.Char_ord"
begin

section \<open>Cells, errors and rows\<close>

text \<open>
  The dashboard script \<^verbatim>\<open>dashboard_508.py\<close> reads a table of channels and derives
  metrics, peer comparisons, recommendations and aggregates from it. The embedding keeps
  the script's names. Numbers are exact: integer columns are \<open>int\<close>, fractional values
  are \<open>real\<close>, a missing numeric cell (pandas' NaN) is the value \<open>NaN\<close> and a comparison
  with it is false, as in Python. A division by zero is the error value
  \<open>ZeroDivisionError\<close>; reading the first element of an empty selection is \<open>IndexError\<close>.
\<close>

datatype error = ZeroDivisionError | IndexError

datatype cell = Val real | NaN

text \<open>
  One row of the table. The columns \<^verbatim>\<open>created_date\<close> and \<^verbatim>\<open>video_count\<close> are not read
  by any function embedded here and are left out. \<open>country\<close> is \<open>None\<close> for a missing cell.
  \<open>videos_last_30_days\<close> is the one column the script coerces (line 934), so it is a cell
  that may be NaN.
\<close>

record channel =
  channel_name :: string
  category :: string
  country :: "string option"
  subscriber_count :: int
  view_count :: int
  views_last_30_days :: int
  videos_last_30_days :: cell
  channel_age_years :: real

definition true_div :: "real \<Rightarrow> real \<Rightarrow> error + real" where
  "true_div a b = (if b = 0 then Inl ZeroDivisionError else Inr (a / b))"

definition ebind :: "error + 'a \<Rightarrow> ('a \<Rightarrow> error + 'b) \<Rightarrow> error + 'b" where
  "ebind m f = (case m of Inl e \<Rightarrow> Inl e | Inr x \<Rightarrow> f x)"

text \<open>Comparisons and arithmetic with a possibly missing number.\<close>

fun cell_lt :: "cell \<Rightarrow> cell \<Rightarrow> bool" where
  "cell_lt (Val a) (Val b) = (a < b)"
| "cell_lt _ _ = False"

fun cell_times :: "cell \<Rightarrow> cell \<Rightarrow> cell" where
  "cell_times (Val a) (Val b) = Val (a * b)"
| "cell_times _ _ = NaN"

fun cell_minus :: "cell \<Rightarrow> cell \<Rightarrow> cell" where
  "cell_minus (Val a) (Val b) = Val (a - b)"
| "cell_minus _ _ = NaN"

section \<open>Ingest: country names and subscriber tiers\<close>

definition COUNTRY_MAP :: "(string \<times> string) list" where
  "COUNTRY_MAP = [
    (''US'', ''United States''), (''GB'', ''United Kingdom''), (''IN'', ''India''),
    (''CA'', ''Canada''), (''AU'', ''Australia''), (''DE'', ''Germany''),
    (''FR'', ''France''), (''IT'', ''Italy''), (''ES'', ''Spain''),
    (''NL'', ''Netherlands''), (''BR'', ''Brazil''), (''MX'', ''Mexico''),
    (''AR'', ''Argentina''), (''CL'', ''Chile''), (''CO'', ''Colombia''),
    (''JP'', ''Japan''), (''KR'', ''South Korea''), (''CN'', ''China''),
    (''TW'', ''Taiwan''), (''HK'', ''Hong Kong''), (''PK'', ''Pakistan''),
    (''BD'', ''Bangladesh''), (''PH'', ''Philippines''), (''VN'', ''Vietnam''),
    (''TH'', ''Thailand''), (''ID'', ''Indonesia''), (''MY'', ''Malaysia''),
    (''SG'', ''Singapore''), (''NP'', ''Nepal''), (''LK'', ''Sri Lanka''),
    (''SA'', ''Saudi Arabia''), (''AE'', ''United Arab Emirates''), (''TR'', ''Turkey''),
    (''EG'', ''Egypt''), (''IL'', ''Israel''), (''RU'', ''Russia''),
    (''PL'', ''Poland''), (''UA'', ''Ukraine''), (''RO'', ''Romania''),
    (''CZ'', ''Czech Republic''), (''SE'', ''Sweden''), (''NO'', ''Norway''),
    (''DK'', ''Denmark''), (''FI'', ''Finland''), (''GR'', ''Greece''),
    (''PT'', ''Portugal''), (''BE'', ''Belgium''), (''AT'', ''Austria''),
    (''CH'', ''Switzerland''), (''IE'', ''Ireland''), (''ZA'', ''South Africa''),
    (''NG'', ''Nigeria''), (''KE'', ''Kenya''), (''GH'', ''Ghana''),
    (''TZ'', ''Tanzania''), (''PE'', ''Peru''), (''EC'', ''Ecuador''),
    (''VE'', ''Venezuela''), (''UY'', ''Uruguay''), (''PY'', ''Paraguay''),
    (''NZ'', ''New Zealand''), (''KH'', ''Cambodia''), (''LA'', ''Laos''),
    (''MM'', ''Myanmar''), (''KZ'', ''Kazakhstan''), (''HU'', ''Hungary''),
    (''SK'', ''Slovakia''), (''BG'', ''Bulgaria''), (''HR'', ''Croatia''),
    (''RS'', ''Serbia''), (''SI'', ''Slovenia''), (''LT'', ''Lithuania''),
    (''LV'', ''Latvia''), (''EE'', ''Estonia''), (''BY'', ''Belarus''),
    (''MA'', ''Morocco''), (''DZ'', ''Algeria''), (''TN'', ''Tunisia''),
    (''LY'', ''Libya''), (''JO'', ''Jordan''), (''IQ'', ''Iraq''),
    (''LB'', ''Lebanon''), (''CY'', ''Cyprus''), (''QA'', ''Qatar''),
    (''OM'', ''Oman''), (''BH'', ''Bahrain''), (''UG'', ''Uganda''),
    (''ZW'', ''Zimbabwe''), (''PR'', ''Puerto Rico''), (''SV'', ''El Salvador''),
    (''CR'', ''Costa Rica''), (''HN'', ''Honduras''), (''GT'', ''Guatemala''),
    (''PA'', ''Panama''), (''DO'', ''Dominican Republic''), (''JM'', ''Jamaica''),
    (''TT'', ''Trinidad and Tobago''), (''BS'', ''Bahamas''), (''BB'', ''Barbados''),
    (''AL'', ''Albania''), (''MK'', ''North Macedonia''), (''BA'', ''Bosnia and Herzegovina''),
    (''ME'', ''Montenegro''), (''GE'', ''Georgia''), (''AM'', ''Armenia''),
    (''AZ'', ''Azerbaijan''), (''IS'', ''Iceland''), (''LU'', ''Luxembourg''),
    (''MT'', ''Malta''), (''MC'', ''Monaco''), (''MD'', ''Moldova''),
    (''BM'', ''Bermuda''), (''AG'', ''Antigua and Barbuda''), (''VI'', ''U.S. Virgin Islands''),
    (''UM'', ''U.S. Minor Outlying Islands''), (''CX'', ''Christmas Island''), (''GM'', ''Gambia''),
    (''AF'', ''Afghanistan''), (''AQ'', ''Antarctica''), (''Unknown'', ''Unknown'')]"

text \<open>Line 692: \<^verbatim>\<open>COUNTRY_MAP.get(x, x if pd.notna(x) else 'Unknown')\<close>.\<close>

definition country_name :: "string option \<Rightarrow> string" where
  "country_name x =
     (case x of
        None \<Rightarrow> ''Unknown''
      | Some c \<Rightarrow> (case map_of COUNTRY_MAP c of Some n \<Rightarrow> n | None \<Rightarrow> c))"

text \<open>
  \<^verbatim>\<open>pd.cut(x, bins, labels, right, include_lowest)\<close> for a list of bin edges whose last
  edge may be infinite. pandas finds the bin by \<^verbatim>\<open>bins.searchsorted(x, side)\<close> with
  \<^verbatim>\<open>side = 'left' if right else 'right'\<close>, sets the index to 1 where
  \<^verbatim>\<open>include_lowest\<close> holds and \<open>x\<close> is the first edge, and gives no bin (NaN, here
  \<open>None\<close>) where the index is 0 or the number of edges. Both calls of the script pass
  constant lists, increasing edges and one label fewer than edges, which pandas checks
  before it bins.
\<close>

datatype 'a edge = Fin 'a | PInf

fun edge_lt :: "'a::linorder edge \<Rightarrow> 'a \<Rightarrow> bool" where
  "edge_lt (Fin b) x = (b < x)"
| "edge_lt PInf x = False"

fun edge_le :: "'a::linorder edge \<Rightarrow> 'a \<Rightarrow> bool" where
  "edge_le (Fin b) x = (b \<le> x)"
| "edge_le PInf x = False"

definition searchsorted :: "'a::linorder edge list \<Rightarrow> 'a \<Rightarrow> bool \<Rightarrow> nat" where
  "searchsorted bins x side_left =
     length (filter (\<lambda>b. if side_left then edge_lt b x else edge_le b x) bins)"

definition pd_cut :: "'a::linorder edge list \<Rightarrow> string list \<Rightarrow> bool \<Rightarrow> bool \<Rightarrow> 'a \<Rightarrow> string option" where
  "pd_cut bins labels right include_lowest x =
     (let ids0 = searchsorted bins x right;
          ids = (if include_lowest \<and> hd bins = Fin x then 1 else ids0)
      in if ids = length bins \<or> ids = 0 then None else Some (labels ! (ids - 1)))"

text \<open>Lines 694-696: the call leaves \<^verbatim>\<open>right\<close> and \<^verbatim>\<open>include_lowest\<close> at pandas' defaults.\<close>

definition tier_bins :: "int edge list" where
  "tier_bins = [Fin 0, Fin 1000, Fin 10000, Fin 100000, Fin 1000000, PInf]"

definition tier_labels :: "string list" where
  "tier_labels = [''0-1K'', ''1K-10K'', ''10K-100K'', ''100K-1M'', ''1M+'']"

definition subscriber_tier :: "int \<Rightarrow> string option" where
  "subscriber_tier n = pd_cut tier_bins tier_labels True False n"

section \<open>Filters\<close>

text \<open>
  Lines 732 and 1084: \<^verbatim>\<open>[k for k,v in COUNTRY_MAP.items() if v in t1_cntry]\<close>, the ISO codes
  whose display name is among the selected names.
\<close>

definition cntry_codes :: "string list \<Rightarrow> string list" where
  "cntry_codes cntry = map fst (filter (\<lambda>(k, v). v \<in> set cntry) COUNTRY_MAP)"

text \<open>\<^verbatim>\<open>Series.isin\<close> on a column with missing cells: a missing cell is in no list.\<close>

definition isin :: "string option \<Rightarrow> string list \<Rightarrow> bool" where
  "isin x xs = (case x of None \<Rightarrow> False | Some c \<Rightarrow> c \<in> set xs)"

text \<open>Lines 732-736: an empty selection (an empty Python list is falsy) skips its filter.\<close>

definition df_t1 :: "channel list \<Rightarrow> string list \<Rightarrow> string list \<Rightarrow> real \<Rightarrow> real \<Rightarrow> channel list" where
  "df_t1 df t1_cat t1_cntry t1_age_min t1_age_max =
     (let t1_cntry_codes = cntry_codes t1_cntry;
          d1 = (if t1_cat \<noteq> [] then filter (\<lambda>r. category r \<in> set t1_cat) df else df);
          d2 = (if t1_cntry_codes \<noteq> []
                then filter (\<lambda>r. isin (country r) t1_cntry_codes) d1 else d1)
      in filter (\<lambda>r. t1_age_min \<le> channel_age_years r \<and> channel_age_years r \<le> t1_age_max) d2)"

text \<open>Lines 1084-1089: the same with the subscriber tier filter before the age filter.\<close>

definition df_t2 :: "channel list \<Rightarrow> string list \<Rightarrow> string list \<Rightarrow> string list \<Rightarrow> real \<Rightarrow> real \<Rightarrow> channel list" where
  "df_t2 df t2_cat t2_cntry t2_sub t2_age_min t2_age_max =
     (let t2_cntry_codes = cntry_codes t2_cntry;
          d1 = (if t2_cat \<noteq> [] then filter (\<lambda>r. category r \<in> set t2_cat) df else df);
          d2 = (if t2_cntry_codes \<noteq> []
                then filter (\<lambda>r. isin (country r) t2_cntry_codes) d1 else d1);
          d3 = (if t2_sub \<noteq> []
                then filter (\<lambda>r. isin (subscriber_tier (subscriber_count r)) t2_sub) d2 else d2)
      in filter (\<lambda>r. t2_age_min \<le> channel_age_years r \<and> channel_age_years r \<le> t2_age_max) d3)"

section \<open>Tab 1: derived metrics\<close>

text \<open>Lines 740-742.\<close>

definition growth_boost_score :: "'a channel_scheme \<Rightarrow> error + real" where
  "growth_boost_score r =
     (let s = (if subscriber_count r > 0 then subscriber_count r else 1) in
      ebind (true_div (real_of_int (views_last_30_days r)) (real_of_int s)) (\<lambda>a.
      ebind (true_div (real_of_int (views_last_30_days r)) (real_of_int (view_count r + 1))) (\<lambda>b.
      Inr (0.7 * a + 0.3 * b))))"

text \<open>Line 745: with no uploads (or a missing or negative count) the views themselves.\<close>

definition views_per_upload :: "'a channel_scheme \<Rightarrow> error + real" where
  "views_per_upload r =
     (case videos_last_30_days r of
        Val v \<Rightarrow> if v > 0 then true_div (real_of_int (views_last_30_days r)) v
                 else Inr (real_of_int (views_last_30_days r))
      | NaN \<Rightarrow> Inr (real_of_int (views_last_30_days r)))"

text \<open>
  Line 746, an expression on whole columns. pandas gives inf or nan for a division by
  zero there and raises nothing; no real number stands for these, and the model reports the
  division as the error value. The column arithmetic is on 64-bit integers, the model's
  on unbounded ones.
\<close>

definition audience_interest_rate :: "'a channel_scheme \<Rightarrow> error + real" where
  "audience_interest_rate r =
     ebind (true_div (real_of_int (views_last_30_days r)) (real_of_int (subscriber_count r + 1)))
       (\<lambda>q. Inr (q * 100))"

text \<open>A row of \<^verbatim>\<open>df_t1\<close> after lines 744-746 carries the three metric columns.\<close>

record mrow = channel +
  col_growth_boost_score :: real
  col_views_per_upload :: real
  col_audience_interest_rate :: real

fun emap :: "('a \<Rightarrow> error + 'b) \<Rightarrow> 'a list \<Rightarrow> error + 'b list" where
  "emap f [] = Inr []"
| "emap f (x # xs) = ebind (f x) (\<lambda>y. ebind (emap f xs) (\<lambda>ys. Inr (y # ys)))"

text \<open>
  Lines 744-746, one column after the other. In the two row-wise columns a division by
  zero raises; the model stops with the error value in all three.
\<close>

definition add_metrics :: "channel list \<Rightarrow> error + mrow list" where
  "add_metrics df =
     ebind (emap growth_boost_score df) (\<lambda>gs.
     ebind (emap views_per_upload df) (\<lambda>vs.
     ebind (emap audience_interest_rate df) (\<lambda>as.
     Inr (map (\<lambda>(r, g, v, a). channel.extend r
                 \<lparr>col_growth_boost_score = g, col_views_per_upload = v,
                  col_audience_interest_rate = a\<rparr>)
            (zip df (zip gs (zip vs as)))))))"

section \<open>Tab 1: the selected channel and its peers\<close>

text \<open>\<^verbatim>\<open>.iloc[0]\<close> raises IndexError on an empty selection.\<close>

definition iloc0 :: "'a list \<Rightarrow> error + 'a" where
  "iloc0 xs = (case xs of [] \<Rightarrow> Inl IndexError | x # _ \<Rightarrow> Inr x)"

text \<open>Line 763.\<close>

definition sel_r :: "'a channel_scheme list \<Rightarrow> string \<Rightarrow> error + 'a channel_scheme" where
  "sel_r df sel_ch = iloc0 (filter (\<lambda>r. channel_name r = sel_ch) df)"

text \<open>\<^verbatim>\<open>Series.between\<close> includes both ends.\<close>

definition between :: "real \<Rightarrow> real \<Rightarrow> real \<Rightarrow> bool" where
  "between x left right = (left \<le> x \<and> x \<le> right)"

text \<open>Lines 771-773.\<close>

definition peers :: "'a channel_scheme list \<Rightarrow> 'a channel_scheme \<Rightarrow> 'a channel_scheme list" where
  "peers df s =
     (let p = filter (\<lambda>r. category r = category s \<and>
                          between (channel_age_years r)
                            (max 0 (channel_age_years s - 3)) (channel_age_years s + 3)) df
      in if p = [] then filter (\<lambda>r. category r = category s) df else p)"

section \<open>Tab 1: percentile normalisation\<close>

text \<open>
  \<^verbatim>\<open>Series.rank()\<close> with pandas' default method, the average: the elements equal to \<open>x\<close>
  take the places \<open>L + 1, ..., L + E\<close> of the sorted series, where \<open>L\<close> elements are smaller
  and \<open>E\<close> are equal, and each of them gets the mean of these places. Only elements of the
  series are ranked, so \<open>E\<close> is not 0 where the function is used.
\<close>

definition rank_average :: "real list \<Rightarrow> real \<Rightarrow> real" where
  "rank_average series x =
     (let l = length (filter (\<lambda>y. y < x) series);
          e = length (filter (\<lambda>y. y = x) series)
      in (\<Sum>k\<leftarrow>[l + 1..<l + e + 1]. real k) / real e)"

text \<open>\<^verbatim>\<open>series.rank(pct=True)\<close>: the ranks divided by the number of elements.\<close>

definition rank_pct :: "real list \<Rightarrow> real list" where
  "rank_pct series = map (\<lambda>x. rank_average series x / real (length series)) series"

text \<open>
  Lines 775-782. \<^verbatim>\<open>.loc[series == value]\<close> keeps the ranks of the elements equal to the
  value; \<^verbatim>\<open>.iloc[0]\<close> fails when there is none and the \<^verbatim>\<open>except\<close> branch computes the
  fallback.
\<close>

definition pct_norm :: "real \<Rightarrow> real list \<Rightarrow> real" where
  "pct_norm v series =
     (case iloc0 (map snd (filter (\<lambda>(x, p). x = v) (zip series (rank_pct series)))) of
        Inr p \<Rightarrow> p
      | Inl _ \<Rightarrow> real (length (filter (\<lambda>x. x < v) series)) / real (max 1 (length series)))"

section \<open>Tab 1: recommendations\<close>

text \<open>
  \<^verbatim>\<open>Series.median()\<close> skips missing cells; of no values it is NaN, of an even number of
  values the mean of the two middle ones.
\<close>

fun dropna :: "cell list \<Rightarrow> real list" where
  "dropna [] = []"
| "dropna (Val v # cs) = v # dropna cs"
| "dropna (NaN # cs) = dropna cs"

definition median :: "cell list \<Rightarrow> cell" where
  "median xs =
     (let ys = sort (dropna xs); n = length ys
      in if n = 0 then NaN
         else if odd n then Val (ys ! (n div 2))
         else Val ((ys ! (n div 2 - 1) + ys ! (n div 2)) / 2))"

text \<open>Lines 884-887.\<close>

definition peer_growth_median :: "mrow list \<Rightarrow> cell" where
  "peer_growth_median ps = median (map (\<lambda>r. Val (col_growth_boost_score r)) ps)"

definition peer_interest_median :: "mrow list \<Rightarrow> cell" where
  "peer_interest_median ps = median (map (\<lambda>r. Val (col_audience_interest_rate r)) ps)"

definition peer_views_median :: "mrow list \<Rightarrow> cell" where
  "peer_views_median ps = median (map (\<lambda>r. Val (col_views_per_upload r)) ps)"

definition peer_upload_freq :: "mrow list \<Rightarrow> cell" where
  "peer_upload_freq ps = median (map videos_last_30_days ps)"

text \<open>
  Lines 889-891 are three copies of \<^verbatim>\<open>((x - m) / m * 100) if m > 0 else 0\<close>; the
  comparison is false for a missing median.
\<close>

definition pct_diff :: "real \<Rightarrow> cell \<Rightarrow> error + real" where
  "pct_diff x m =
     (if cell_lt (Val 0) m
      then (case m of Val mv \<Rightarrow> ebind (true_div (x - mv) mv) (\<lambda>q. Inr (q * 100))
                    | NaN \<Rightarrow> Inr 0)
      else Inr 0)"

definition growth_diff :: "mrow \<Rightarrow> mrow list \<Rightarrow> error + real" where
  "growth_diff s ps = pct_diff (col_growth_boost_score s) (peer_growth_median ps)"

definition interest_diff :: "mrow \<Rightarrow> mrow list \<Rightarrow> error + real" where
  "interest_diff s ps = pct_diff (col_audience_interest_rate s) (peer_interest_median ps)"

definition views_diff :: "mrow \<Rightarrow> mrow list \<Rightarrow> error + real" where
  "views_diff s ps = pct_diff (col_views_per_upload s) (peer_views_median ps)"

text \<open>
  The texts are Python f-strings. How Python writes a float in the formats \<^verbatim>\<open>.1f\<close>,
  \<^verbatim>\<open>.2f\<close>, \<^verbatim>\<open>+.1f\<close> and \<^verbatim>\<open>,.0f\<close> is a parameter of the model; an integer is written
  in decimal.
\<close>

record fmt =
  fixed1 :: "cell \<Rightarrow> string"
  fixed2 :: "cell \<Rightarrow> string"
  signed1 :: "cell \<Rightarrow> string"
  grouped0 :: "cell \<Rightarrow> string"

function str_nat :: "nat \<Rightarrow> string" where
  "str_nat n = (if n < 10 then [''0123456789'' ! n]
                else str_nat (n div 10) @ [''0123456789'' ! (n mod 10)])"
  by pat_completeness auto
termination
  by (relation "measure id") auto

declare str_nat.simps [simp del]

text \<open>The bullet of the indented lines, U+2022, as its three bytes.\<close>

definition bullet :: string where
  "bullet = [CHR 0xE2, CHR 0x80, CHR 0xA2]"

text \<open>The conditions of lines 895, 902, 907, 913 and 916.\<close>

definition critical_fired :: "mrow \<Rightarrow> mrow list \<Rightarrow> bool" where
  "critical_fired s ps = cell_lt (Val (col_audience_interest_rate s)) (peer_interest_median ps)"

definition excellent_fired :: "mrow \<Rightarrow> mrow list \<Rightarrow> bool" where
  "excellent_fired s ps =
     (\<not> critical_fired s ps \<and>
      cell_lt (cell_times (peer_interest_median ps) (Val 1.2)) (Val (col_audience_interest_rate s)))"

definition important_fired :: "mrow \<Rightarrow> mrow list \<Rightarrow> bool" where
  "important_fired s ps = cell_lt (Val (col_views_per_upload s)) (peer_views_median ps)"

definition opportunity_fired :: "mrow \<Rightarrow> mrow list \<Rightarrow> bool" where
  "opportunity_fired s ps = cell_lt (Val (col_growth_boost_score s)) (peer_growth_median ps)"

definition consider_fired :: "mrow \<Rightarrow> mrow list \<Rightarrow> bool" where
  "consider_fired s ps =
     (cell_lt (videos_last_30_days s) (peer_upload_freq ps) \<and> cell_lt (videos_last_30_days s) (Val 4))"

text \<open>Lines 921 and 924: \<^verbatim>\<open>"CRITICAL" in t or "IMPORTANT" in t\<close>, a substring test.\<close>

definition key_line :: "string \<Rightarrow> bool" where
  "key_line t = (sublist ''CRITICAL'' t \<or> sublist ''IMPORTANT'' t)"

text \<open>Lines 893-925. The list grows by \<^verbatim>\<open>append\<close>; the summary is inserted at index 0.\<close>

definition tips :: "fmt \<Rightarrow> mrow \<Rightarrow> mrow list \<Rightarrow> error + string list" where
  "tips f s ps =
     ebind (growth_diff s ps) (\<lambda>gd.
     ebind (interest_diff s ps) (\<lambda>idf.
     ebind (views_diff s ps) (\<lambda>vd.
     (let air = Val (col_audience_interest_rate s);
          vpu = Val (col_views_per_upload s);
          t1 = (if critical_fired s ps then
                  [''CRITICAL: Improve Audience Engagement (You're '' @ fixed1 f (Val \<bar>idf\<bar>)
                     @ ''% below peers)'',
                   ''   '' @ bullet @ '' Your audience interest rate: **'' @ fixed2 f air
                     @ ''%** vs peer average: **'' @ fixed2 f (peer_interest_median ps) @ ''%**'',
                   ''   '' @ bullet @ '' Only **'' @ fixed1 f air
                     @ ''%** of your subscribers watched your recent videos'',
                   ''   '' @ bullet @ '' Action: Improve your first 30 seconds - use pattern interrupts, compelling hooks, and faster pacing'',
                   ''   '' @ bullet @ '' Action: Survey your audience to understand what content they want more of'']
                else if excellent_fired s ps then
                  [''EXCELLENT: Strong Audience Engagement ('' @ signed1 f (Val idf)
                     @ ''% vs peers!)'',
                   ''   '' @ bullet @ '' Your audience interest rate: **'' @ fixed2 f air
                     @ ''%** (Outstanding!)'',
                   ''   '' @ bullet @ '' Keep doing what you're doing - your content resonates with your audience'']
                else []);
          t2 = t1 @ (if important_fired s ps then
                  [''IMPORTANT: Optimize Click-Through Rate (You're '' @ fixed1 f (Val \<bar>vd\<bar>)
                     @ ''% below peers)'',
                   ''   '' @ bullet @ '' Your views per upload: **'' @ grouped0 f vpu
                     @ ''** vs peer average: **'' @ grouped0 f (peer_views_median ps) @ ''**'',
                   ''   '' @ bullet @ '' Potential gain: **''
                     @ grouped0 f (cell_times (cell_minus (peer_views_median ps) vpu)
                                     (videos_last_30_days s))
                     @ ''** extra views/month'',
                   ''   '' @ bullet @ '' Action: A/B test thumbnails - use high contrast, faces with emotion, and bold text'']
                else []);
          t3 = t2 @ (if opportunity_fired s ps then
                  [''OPPORTUNITY: Accelerate Channel Growth (You're '' @ fixed1 f (Val \<bar>gd\<bar>)
                     @ ''% below peers)'']
                else []);
          t4 = t3 @ (if consider_fired s ps then [''CONSIDER: Increase Upload Frequency''] else []);
          t5 = t4 @ [''Category Context: '' @ category s,
                     ''   '' @ bullet @ '' Comparing against **'' @ str_nat (length ps)
                       @ ''** similar channels in your category'']
      in Inr (if \<not> list_ex key_line t5
              then ''OVERALL: Your channel is performing well! Keep refining based on these insights.'' # t5
              else (''FOCUS AREAS: '' @ str_nat (length (filter key_line t5))
                      @ '' key improvement(s) identified - Prioritize these for maximum impact!'') # t5)))))"

text \<open>
  Two predicates for stating what the summary line counts: a string has none of the
  letters of the two words, and a formatter writes only such strings (Python's fixed-point
  formats write digits, a sign, a point, commas, or \<^verbatim>\<open>nan\<close> and \<^verbatim>\<open>inf\<close>).
\<close>

definition plain :: "string \<Rightarrow> bool" where
  "plain m = (set m \<inter> (set ''CRITICAL'' \<union> set ''IMPORTANT'') = {})"

definition plain_fmt :: "fmt \<Rightarrow> bool" where
  "plain_fmt f = (\<forall>c. plain (fixed1 f c) \<and> plain (fixed2 f c) \<and> plain (signed1 f c)
                      \<and> plain (grouped0 f c))"

section \<open>Tab 1: posting frequency buckets\<close>

text \<open>
  Line 934: \<^verbatim>\<open>pd.to_numeric(..., errors='coerce').fillna(0).clip(lower=0)\<close>. The column
  reaches this line only after line 745 compared each of its cells with 0, which raises on
  a string: the cells are numbers or NaN, and \<^verbatim>\<open>to_numeric\<close> keeps them.
\<close>

definition to_numeric :: "cell \<Rightarrow> cell" where
  "to_numeric c = c"

definition fillna :: "real \<Rightarrow> cell \<Rightarrow> cell" where
  "fillna d c = (case c of NaN \<Rightarrow> Val d | Val v \<Rightarrow> Val v)"

definition clip_lower :: "real \<Rightarrow> cell \<Rightarrow> cell" where
  "clip_lower lo c = (case c of NaN \<Rightarrow> NaN | Val v \<Rightarrow> Val (max lo v))"

definition coerce_videos :: "'a channel_scheme list \<Rightarrow> 'a channel_scheme list" where
  "coerce_videos df =
     map (\<lambda>r. r\<lparr>videos_last_30_days := clip_lower 0 (fillna 0 (to_numeric (videos_last_30_days r)))\<rparr>) df"

text \<open>Lines 937-940.\<close>

definition bin_edges :: "real edge list" where
  "bin_edges = [Fin 0, Fin 5, Fin 10, Fin 15, Fin 20, Fin 25, Fin 30, PInf]"

definition labels :: "string list" where
  "labels = [''0-4'', ''5-9'', ''10-14'', ''15-19'', ''20-24'', ''25-29'', ''30+'']"

definition uploads_bucket :: "cell \<Rightarrow> string option" where
  "uploads_bucket c = (case c of NaN \<Rightarrow> None | Val v \<Rightarrow> pd_cut bin_edges labels False True v)"

text \<open>
  Lines 952-955: one row for each bucket that has a member (\<^verbatim>\<open>observed=True\<close>), with the
  median of the members' views and the number of distinct channel names.
\<close>

definition nunique :: "string list \<Rightarrow> nat" where
  "nunique xs = length (remdups xs)"

definition ba :: "'a channel_scheme list \<Rightarrow> (string \<times> cell \<times> nat) list" where
  "ba df =
     map (\<lambda>l. let g = filter (\<lambda>r. uploads_bucket (videos_last_30_days r) = Some l) df
              in (l, median (map (\<lambda>r. Val (real_of_int (views_last_30_days r))) g),
                     nunique (map channel_name g)))
         (filter (\<lambda>l. list_ex (\<lambda>r. uploads_bucket (videos_last_30_days r) = Some l) df) labels)"

text \<open>
  Lines 958-959: the left merge keeps one row for each label, in the order of the labels,
  and \<^verbatim>\<open>fillna\<close> writes 0 where the merge found nothing.
\<close>

definition ba_all :: "(string \<times> cell \<times> nat) list \<Rightarrow> (string \<times> real \<times> nat) list" where
  "ba_all rows =
     map (\<lambda>l. case map_of rows l of
                None \<Rightarrow> (l, 0, 0)
              | Some (t, c) \<Rightarrow> (l, (case t of NaN \<Rightarrow> 0 | Val v \<Rightarrow> v), c)) labels"

text \<open>Lines 934-959 together, on the table as lines 744-746 left it.\<close>

definition posting_frequency :: "'a channel_scheme list \<Rightarrow> (string \<times> real \<times> nat) list" where
  "posting_frequency df = ba_all (ba (coerce_videos df))"

section \<open>Tab 2: category entry difficulty\<close>






section \<open>Properties\<close>

subsection \<open>Growth boost score\<close>

text \<open>
  C1. For a row whose subscriber_count, view_count and views_last_30_days are not negative,
  growth_boost_score returns a number (no division by zero), namely
  0.7 * (views_last_30_days / max(subscriber_count, 1)) + 0.3 * (views_last_30_days / (view_count + 1));
  with subscriber_count = 0, view_count = 0 and views_last_30_days = 100 it is exactly 100.
\<close>

theorem growth_boost_score_formula:
  assumes "0 \<le> subscriber_count r" and "0 \<le> view_count r" and "0 \<le> views_last_30_days r"
  shows "growth_boost_score r =
           Inr (0.7 * (real_of_int (views_last_30_days r) / real_of_int (max (subscriber_count r) 1))
              + 0.3 * (real_of_int (views_last_30_days r) / real_of_int (view_count r + 1)))
         \<and> (subscriber_count r = 0 \<and> view_count r = 0 \<and> views_last_30_days r = 100
           \<longrightarrow> growth_boost_score r = Inr 100)"
proof -
  have s: "(if subscriber_count r > 0 then subscriber_count r else 1) = max (subscriber_count r) 1"
    using assms(1) by auto
  have d1: "real_of_int (max (subscriber_count r) 1) \<noteq> 0"
    by (simp add: max_def)
  have d2: "real_of_int (view_count r + 1) \<noteq> 0"
    using assms(2) by (simp add: add_nonneg_eq_0_iff)
  have f: "growth_boost_score r =
           Inr (0.7 * (real_of_int (views_last_30_days r) / real_of_int (max (subscriber_count r) 1))
              + 0.3 * (real_of_int (views_last_30_days r) / real_of_int (view_count r + 1)))"
    unfolding growth_boost_score_def s Let_def true_div_def ebind_def
    using d1 d2 by simp
  show ?thesis
    by (simp add: f)
qed

theorem growth_boost_score_formula_witness:
  "growth_boost_score \<lparr>channel_name = ''a'', category = ''Music'', country = Some ''US'',
      subscriber_count = 0, view_count = 0, views_last_30_days = 100,
      videos_last_30_days = Val 2, channel_age_years = 1\<rparr> = Inr 100"
  using growth_boost_score_formula [of "\<lparr>channel_name = ''a'', category = ''Music'',
      country = Some ''US'', subscriber_count = 0, view_count = 0, views_last_30_days = 100,
      videos_last_30_days = Val 2, channel_age_years = 1\<rparr>"]
  by simp

subsection \<open>Medians\<close>

lemma sort_Nil_iff: "(sort xs = []) = (xs = [])"
  by (metis length_sort length_0_conv)

lemma dropna_Val: "dropna (map (\<lambda>r. Val (f r)) ps) = map f ps"
  by (induction ps) auto

lemma median_values:
  assumes "ps \<noteq> []"
  shows "median (map (\<lambda>r. Val (f r)) ps) \<noteq> NaN"
  using assms by (simp add: median_def dropna_Val Let_def sort_Nil_iff)

subsection \<open>Percentile normalisation\<close>

lemma sum_places:
  "(\<Sum>k\<leftarrow>[l + 1..<l + e + 1]. real k) = real e * real l + real e * (real e + 1) / 2"
proof (induction e)
  case 0
  then show ?case by simp
next
  case (Suc e)
  have "[l + 1..<Suc (l + e + 1)] = [l + 1..<l + e + 1] @ [l + e + 1]"
    by (rule upt_Suc_append) simp
  then have "(\<Sum>k\<leftarrow>[l + 1..<l + Suc e + 1]. real k) =
               (\<Sum>k\<leftarrow>[l + 1..<l + e + 1]. real k) + real (l + e + 1)"
    by simp
  then show ?case unfolding Suc by (simp add: field_simps)
qed

lemma count_eq_pos:
  assumes "x \<in> set series"
  shows "1 \<le> real (length (filter (\<lambda>y. y = x) series))"
proof -
  have "filter (\<lambda>y. y = x) series \<noteq> []"
    using assms by (auto simp: filter_empty_conv)
  then have "1 \<le> length (filter (\<lambda>y. y = x) series)"
    by (simp add: Suc_le_eq)
  then show ?thesis by simp
qed

lemma rank_average_closed:
  assumes "x \<in> set series"
  shows "rank_average series x =
           real (length (filter (\<lambda>y. y < x) series))
             + (real (length (filter (\<lambda>y. y = x) series)) + 1) / 2"
proof -
  have "0 < real (length (filter (\<lambda>y. y = x) series))"
    using count_eq_pos [OF assms] by linarith
  then have e: "real (length (filter (\<lambda>y. y = x) series)) \<noteq> 0"
    by (rule less_imp_neq [THEN not_sym])
  show ?thesis
    unfolding rank_average_def Let_def sum_places
    using e by (simp add: field_simps)
qed

lemma less_eq_count:
  "length (filter (\<lambda>y. y < x) xs) + length (filter (\<lambda>y. y = x) xs) \<le> length (xs :: real list)"
  by (induction xs) auto

lemma filter_mono_length:
  "(\<And>y. y \<in> set xs \<Longrightarrow> P y \<Longrightarrow> Q y) \<Longrightarrow> length (filter P xs) \<le> length (filter Q xs)"
  by (induction xs) auto

lemma exact_ranks:
  "map snd (filter (\<lambda>(x, p). x = v) (zip series (map f series)))
     = map f (filter (\<lambda>x. x = v) series)"
  by (induction series) auto

lemma pct_norm_exact:
  assumes "v \<in> set series"
  shows "pct_norm v series = rank_average series v / real (length series)"
proof -
  obtain ys where ys: "filter (\<lambda>x. x = v) series = v # ys"
  proof (cases "filter (\<lambda>x. x = v) series")
    case Nil
    then show ?thesis using assms by (auto simp: filter_empty_conv)
  next
    case (Cons a list)
    then have "a \<in> set (filter (\<lambda>x. x = v) series)" by simp
    then have "a = v" by simp
    then show ?thesis using Cons that by simp
  qed
  show ?thesis
    unfolding pct_norm_def rank_pct_def exact_ranks ys iloc0_def by simp
qed

lemma pct_norm_fallback:
  assumes "v \<notin> set series"
  shows "pct_norm v series
           = real (length (filter (\<lambda>x. x < v) series)) / real (max 1 (length series))"
proof -
  have "filter (\<lambda>x. x = v) series = []"
    using assms by (auto simp: filter_empty_conv)
  then show ?thesis
    unfolding pct_norm_def rank_pct_def exact_ranks iloc0_def by simp
qed

lemma rank_average_bounds:
  assumes "x \<in> set series"
  shows "0 \<le> rank_average series x" and "rank_average series x \<le> real (length series)"
proof -
  let ?l = "length (filter (\<lambda>y. y < x) series)" and ?e = "length (filter (\<lambda>y. y = x) series)"
  have e: "1 \<le> real ?e" by (rule count_eq_pos [OF assms])
  have le: "?l + ?e \<le> length series" by (rule less_eq_count)
  show "0 \<le> rank_average series x"
    unfolding rank_average_closed [OF assms] by simp
  have "(real ?e + 1) / 2 \<le> real ?e" using e by simp
  then have "real ?l + (real ?e + 1) / 2 \<le> real (?l + ?e)" by simp
  also have "\<dots> \<le> real (length series)" using le by simp
  finally show "rank_average series x \<le> real (length series)"
    unfolding rank_average_closed [OF assms] .
qed

lemma pct_norm_range:
  assumes "series \<noteq> []"
  shows "0 \<le> pct_norm v series \<and> pct_norm v series \<le> 1"
proof (cases "v \<in> set series")
  case True
  have n: "0 < real (length series)" using assms by simp
  show ?thesis
    unfolding pct_norm_exact [OF True]
    using rank_average_bounds [OF True] n by (simp add: divide_le_eq)
next
  case False
  have n: "0 < real (max 1 (length series))" by simp
  have "length (filter (\<lambda>x. x < v) series) \<le> max 1 (length series)"
    using length_filter_le [of "\<lambda>x. x < v" series] by (simp add: le_max_iff_disj)
  then have "real (length (filter (\<lambda>x. x < v) series)) \<le> real (max 1 (length series))"
    by (rule of_nat_mono)
  then show ?thesis
    unfolding pct_norm_fallback [OF False]
    using n by (simp only: divide_le_eq_1_pos) simp
qed

lemma rank_average_least:
  assumes v: "v \<in> set series" and y: "y \<in> set series" and low: "\<forall>x\<in>set series. v \<le> x"
  shows "rank_average series v \<le> rank_average series y"
proof (cases "y = v")
  case True
  then show ?thesis by simp
next
  case False
  then have vy: "v < y" using low y by fastforce
  have l0: "filter (\<lambda>x. x < v) series = []"
    using low by (auto simp: filter_empty_conv)
  have "length (filter (\<lambda>x. x = v) series) \<le> length (filter (\<lambda>x. x < y) series)"
    by (rule filter_mono_length) (use vy in simp)
  then have *: "real (length (filter (\<lambda>x. x = v) series))
                  \<le> real (length (filter (\<lambda>x. x < y) series))"
    by (rule of_nat_mono)
  have e: "1 \<le> real (length (filter (\<lambda>x. x = v) series))"
    by (rule count_eq_pos [OF v])
  have "(real (length (filter (\<lambda>x. x = v) series)) + 1) / 2
          \<le> real (length (filter (\<lambda>x. x < y) series))
            + (real (length (filter (\<lambda>x. x = y) series)) + 1) / 2"
    using * e by (simp add: field_simps)
  then show ?thesis
    unfolding rank_average_closed [OF v] rank_average_closed [OF y] l0
    by simp
qed

lemma pct_norm_least_exact:
  assumes v: "v \<in> set series" and low: "\<forall>x\<in>set series. v \<le> x"
  shows "pct_norm v series = Min (set (rank_pct series))"
proof -
  have n: "0 < real (length series)" using v by (cases series) auto
  have "Min (set (rank_pct series)) = rank_average series v / real (length series)"
  proof (rule Min_eqI)
    show "finite (set (rank_pct series))" by simp
    show "rank_average series v / real (length series) \<in> set (rank_pct series)"
      unfolding rank_pct_def using v by auto
    fix p assume "p \<in> set (rank_pct series)"
    then obtain y where y: "y \<in> set series"
      and p: "p = rank_average series y / real (length series)"
      unfolding rank_pct_def by auto
    show "rank_average series v / real (length series) \<le> p"
      unfolding p using rank_average_least [OF v y low] n by (simp add: divide_right_mono)
  qed
  then show ?thesis by (simp add: pct_norm_exact [OF v])
qed

lemma pct_norm_least_fallback:
  assumes v: "v \<notin> set series" and low: "\<forall>x\<in>set series. v \<le> x"
  shows "pct_norm v series = 0"
proof -
  have "filter (\<lambda>x. x < v) series = []"
    using low by (auto simp: filter_empty_conv)
  then show ?thesis by (simp add: pct_norm_fallback [OF v])
qed

text \<open>
  C2. For a non-empty series, pct_norm lies between 0 and 1. A value that occurs in the
  series gets its average rank divided by the length of the series, the average rank being
  the number of smaller elements plus half of one more than the number of equal elements.
  A value that does not occur gets the number of strictly smaller elements divided by
  max(1, length). For a value not above any element of the series, that is 0 under the
  fallback and the least of the series' percentile ranks under the exact match, which is
  the case of the minimum of the series.
\<close>

theorem pct_norm_percentile:
  assumes "series \<noteq> []"
  shows "0 \<le> pct_norm v series \<and> pct_norm v series \<le> 1
       \<and> (v \<in> set series \<longrightarrow>
            pct_norm v series = rank_average series v / real (length series)
            \<and> rank_average series v =
                real (length (filter (\<lambda>y. y < v) series))
                  + (real (length (filter (\<lambda>y. y = v) series)) + 1) / 2)
       \<and> (v \<notin> set series \<longrightarrow>
            pct_norm v series
              = real (length (filter (\<lambda>x. x < v) series)) / real (max 1 (length series)))
       \<and> ((\<forall>x\<in>set series. v \<le> x) \<longrightarrow>
            (v \<notin> set series \<longrightarrow> pct_norm v series = 0)
            \<and> (v \<in> set series \<longrightarrow> pct_norm v series = Min (set (rank_pct series))))
       \<and> pct_norm (Min (set series)) series = Min (set (rank_pct series))"
proof -
  have m: "Min (set series) \<in> set series" using assms by simp
  have "\<forall>x\<in>set series. Min (set series) \<le> x" by simp
  then have least: "pct_norm (Min (set series)) series = Min (set (rank_pct series))"
    by (rule pct_norm_least_exact [OF m])
  show ?thesis
    using pct_norm_range [OF assms, of v] pct_norm_exact [of v series]
      rank_average_closed [of v series] pct_norm_fallback [of v series]
      pct_norm_least_fallback [of v series] pct_norm_least_exact [of v series] least
    by blast
qed

theorem pct_norm_percentile_witness:
  "pct_norm 2 [1, 2, 2, 5] = 5 / 8 \<and> pct_norm 3 [1, 2, 2, 5] = 3 / 4
   \<and> pct_norm 0 [1, 2, 2, 5] = 0
   \<and> Min (set (rank_pct [1, 2, 2, 5])) = 1 / 4
   \<and> 0 \<le> pct_norm 2 [1, 2, 2, 5] \<and> pct_norm 2 [1, 2, 2, 5] \<le> 1"
  using pct_norm_percentile [of "[1, 2, 2, 5]" 2] pct_norm_percentile [of "[1, 2, 2, 5]" 3]
    pct_norm_percentile [of "[1, 2, 2, 5]" 0]
  by (simp add: rank_average_def pct_norm_def rank_pct_def iloc0_def upt_rec)

subsection \<open>Subscriber tiers\<close>

lemma subscriber_tier_formula:
  "0 < n \<Longrightarrow> subscriber_tier n =
     Some (if n \<le> 1000 then ''0-1K'' else if n \<le> 10000 then ''1K-10K''
           else if n \<le> 100000 then ''10K-100K'' else if n \<le> 1000000 then ''100K-1M''
           else ''1M+'')"
  by (simp add: subscriber_tier_def pd_cut_def searchsorted_def tier_bins_def tier_labels_def)

lemma subscriber_tier_zero: "subscriber_tier 0 = None"
  by (simp add: subscriber_tier_def pd_cut_def searchsorted_def tier_bins_def tier_labels_def)

text \<open>
  C3, as the code has it. For every subscriber_count of at least 1 the tier is one of the
  five labels, and the bins are closed on the right: (0,1000], (1000,10000],
  (10000,100000], (100000,1000000] and above 1000000, labelled "0-1K", "1K-10K",
  "10K-100K", "100K-1M", "1M+". Each of the boundary values 1000, 10000, 100000 and
  1000000 is in the lower of its two bins.
\<close>

theorem subscriber_tier_bins:
  "(0 < n \<longrightarrow>
      (\<exists>l\<in>set tier_labels. subscriber_tier n = Some l)
      \<and> subscriber_tier n =
          Some (if n \<le> 1000 then ''0-1K'' else if n \<le> 10000 then ''1K-10K''
                else if n \<le> 100000 then ''10K-100K'' else if n \<le> 1000000 then ''100K-1M''
                else ''1M+''))
   \<and> subscriber_tier 1000 = Some ''0-1K'' \<and> subscriber_tier 10000 = Some ''1K-10K''
   \<and> subscriber_tier 100000 = Some ''10K-100K'' \<and> subscriber_tier 1000000 = Some ''100K-1M''
   \<and> length tier_labels = 5"
proof -
  have "\<exists>l\<in>set tier_labels. subscriber_tier n = Some l" if "0 < n"
    unfolding subscriber_tier_formula [OF that] by (simp add: tier_labels_def)
  then show ?thesis
    by (simp add: subscriber_tier_formula) (simp add: tier_labels_def)
qed

theorem subscriber_tier_bins_witness:
  "subscriber_tier 5000 = Some ''1K-10K'' \<and> subscriber_tier 1 = Some ''0-1K''
   \<and> subscriber_tier 1000001 = Some ''1M+''"
  using subscriber_tier_bins [of 5000] subscriber_tier_bins [of 1]
    subscriber_tier_bins [of 1000001]
  by simp

text \<open>
  The claim C3 as the specification states it puts 1000 into the upper bin "1K-10K"; the
  code puts it into "0-1K".
\<close>

theorem subscriber_tier_boundary_counterexample:
  "subscriber_tier 1000 = Some ''0-1K'' \<and> subscriber_tier 1000 \<noteq> Some ''1K-10K''"
  by (simp add: subscriber_tier_def pd_cut_def searchsorted_def tier_bins_def tier_labels_def)

subsection \<open>Posting frequency buckets\<close>

lemma uploads_bucket_formula:
  "0 \<le> v \<Longrightarrow> uploads_bucket (Val v) =
     Some (if v < 5 then ''0-4'' else if v < 10 then ''5-9'' else if v < 15 then ''10-14''
           else if v < 20 then ''15-19'' else if v < 25 then ''20-24''
           else if v < 30 then ''25-29'' else ''30+'')"
  by (simp add: uploads_bucket_def pd_cut_def searchsorted_def bin_edges_def labels_def)

lemma uploads_bucket_in_labels:
  "0 \<le> v \<Longrightarrow> \<exists>!l. l \<in> set labels \<and> uploads_bucket (Val v) = Some l"
  by (auto simp: uploads_bucket_formula labels_def)

lemma ba_keys:
  "map fst (ba df) =
     filter (\<lambda>l. list_ex (\<lambda>r. uploads_bucket (videos_last_30_days r) = Some l) df) labels"
  by (simp add: ba_def Let_def comp_def)

lemma ba_all_keys: "map fst (ba_all rows) = labels"
  by (auto simp: ba_all_def comp_def split: option.splits intro!: map_idI)

lemma ba_all_empty_bucket:
  assumes "l \<in> set labels" and "l \<notin> set (map fst rows)"
  shows "(l, 0, 0) \<in> set (ba_all rows)"
proof -
  have "map_of rows l = None" using assms(2) by (simp add: map_of_eq_None_iff)
  then show ?thesis using assms(1) unfolding ba_all_def by force
qed

lemma map_of_graph:
  "map_of (map (\<lambda>l. (l, g l)) xs) l = (if l \<in> set xs then Some (g l) else None)"
  by (induction xs) auto

lemma ba_all_member_bucket:
  assumes l: "l \<in> set labels"
    and m: "list_ex (\<lambda>r. uploads_bucket (videos_last_30_days r) = Some l) df"
    and g: "g = filter (\<lambda>r. uploads_bucket (videos_last_30_days r) = Some l) df"
  shows "\<exists>t. median (map (\<lambda>r. Val (real_of_int (views_last_30_days r))) g) = Val t
            \<and> (l, t, nunique (map channel_name g)) \<in> set (ba_all (ba df))"
proof -
  have "g \<noteq> []" using m unfolding g by (auto simp: filter_empty_conv list_ex_iff)
  then obtain t where t: "median (map (\<lambda>r. Val (real_of_int (views_last_30_days r))) g) = Val t"
    using median_values [of g "\<lambda>r. real_of_int (views_last_30_days r)"]
    by (cases "median (map (\<lambda>r. Val (real_of_int (views_last_30_days r))) g)") auto
  have "map_of (ba df) l = Some (Val t, nunique (map channel_name g))"
    unfolding ba_def Let_def map_of_graph using l m t g by simp
  then have "(l, t, nunique (map channel_name g)) \<in> set (ba_all (ba df))"
    unfolding ba_all_def using l by force
  then show ?thesis using t by blast
qed

lemma posting_frequency_all:
  "map fst (posting_frequency df) = labels \<and> length (posting_frequency df) = 7 \<and>
   (\<forall>l\<in>set labels.
      \<not> list_ex (\<lambda>r. uploads_bucket (videos_last_30_days r) = Some l) (coerce_videos df)
        \<longrightarrow> (l, 0, 0) \<in> set (posting_frequency df))"
proof -
  have k: "map fst (posting_frequency df) = labels"
    by (simp add: posting_frequency_def ba_all_keys)
  have "length (map fst (posting_frequency df)) = 7"
    unfolding k by (simp add: labels_def)
  then have n: "length (posting_frequency df) = 7" by simp
  have "(l, 0, 0) \<in> set (posting_frequency df)"
    if "l \<in> set labels"
      "\<not> list_ex (\<lambda>r. uploads_bucket (videos_last_30_days r) = Some l) (coerce_videos df)"
    for l
    unfolding posting_frequency_def
    by (rule ba_all_empty_bucket [OF that(1)]) (use that(2) in \<open>simp add: ba_keys\<close>)
  then show ?thesis using k n by blast
qed

text \<open>
  C4. Every non-negative videos_last_30_days value gets exactly one of the seven buckets:
  "0-4" below 5, "5-9" from 5 and below 10, and so on in steps of 5 up to "25-29", and
  "30+" from 30 on; each bin contains its left edge and not its right one. For every table
  the bucket aggregate has one row for each of the seven labels, in their order, and a
  bucket that no row of the table falls into has typical value 0 and member count 0.
\<close>

theorem posting_frequency_buckets:
  "(0 \<le> v \<longrightarrow>
      uploads_bucket (Val v) =
        Some (if v < 5 then ''0-4'' else if v < 10 then ''5-9'' else if v < 15 then ''10-14''
              else if v < 20 then ''15-19'' else if v < 25 then ''20-24''
              else if v < 30 then ''25-29'' else ''30+'')
      \<and> (\<exists>!l. l \<in> set labels \<and> uploads_bucket (Val v) = Some l))
   \<and> map fst (posting_frequency df) = labels \<and> length (posting_frequency df) = 7
   \<and> (\<forall>l\<in>set labels.
        \<not> list_ex (\<lambda>r. uploads_bucket (videos_last_30_days r) = Some l) (coerce_videos df)
          \<longrightarrow> (l, 0, 0) \<in> set (posting_frequency df))"
  using uploads_bucket_formula [of v] uploads_bucket_in_labels [of v] posting_frequency_all [of df]
  by blast

theorem posting_frequency_buckets_witness:
  "uploads_bucket (Val 7) = Some ''5-9''
   \<and> map fst (posting_frequency
        [\<lparr>channel_name = ''a'', category = ''Music'', country = Some ''US'',
          subscriber_count = 10, view_count = 500, views_last_30_days = 100,
          videos_last_30_days = Val 7, channel_age_years = 1\<rparr>])
       = [''0-4'', ''5-9'', ''10-14'', ''15-19'', ''20-24'', ''25-29'', ''30+'']
   \<and> (''30+'', 0, 0) \<in> set (posting_frequency
        [\<lparr>channel_name = ''a'', category = ''Music'', country = Some ''US'',
          subscriber_count = 10, view_count = 500, views_last_30_days = 100,
          videos_last_30_days = Val 7, channel_age_years = 1\<rparr>])"
  using posting_frequency_buckets [of 7
        "[\<lparr>channel_name = ''a'', category = ''Music'', country = Some ''US'',
          subscriber_count = 10, view_count = 500, views_last_30_days = 100,
          videos_last_30_days = Val 7, channel_age_years = 1\<rparr>]"]
  by (simp add: labels_def coerce_videos_def to_numeric_def fillna_def clip_lower_def)

subsection \<open>Category entry difficulty\<close>










subsection \<open>Percent differences\<close>

lemma pct_diff_defined: "\<exists>d. pct_diff x m = Inr d"
  by (cases m) (auto simp: pct_diff_def true_div_def ebind_def)

lemma pct_diff_zero: "pct_diff x (Val 0) = Inr 0"
  by (simp add: pct_diff_def)

lemma pct_diff_pos: "0 < m \<Longrightarrow> pct_diff x (Val m) = Inr ((x - m) / m * 100)"
  by (simp add: pct_diff_def true_div_def ebind_def)

text \<open>
  C6. When the peer median of growth_boost_score, of audience_interest_rate or of
  views_per_upload is 0, the percent difference for it is exactly 0. With a peer median of
  audience_interest_rate of 0 and the channel's value 5 the difference is 0, and the
  recommendations report it: the list has the line on strong engagement with the formatted
  value 0. No percent difference ever divides by zero.
\<close>

theorem zero_median_guard:
  "(peer_growth_median ps = Val 0 \<longrightarrow> growth_diff s ps = Inr 0)
   \<and> (peer_interest_median ps = Val 0 \<longrightarrow> interest_diff s ps = Inr 0)
   \<and> (peer_views_median ps = Val 0 \<longrightarrow> views_diff s ps = Inr 0)
   \<and> (peer_interest_median ps = Val 0 \<and> col_audience_interest_rate s = 5
        \<longrightarrow> interest_diff s ps = Inr 0
            \<and> (\<exists>ts. tips f s ps = Inr ts \<and>
                  ''EXCELLENT: Strong Audience Engagement ('' @ signed1 f (Val 0) @ ''% vs peers!)''
                    \<in> set ts))
   \<and> growth_diff s ps \<noteq> Inl ZeroDivisionError
   \<and> interest_diff s ps \<noteq> Inl ZeroDivisionError
   \<and> views_diff s ps \<noteq> Inl ZeroDivisionError"
proof -
  have g: "peer_growth_median ps = Val 0 \<longrightarrow> growth_diff s ps = Inr 0"
    by (simp add: growth_diff_def pct_diff_zero)
  have i: "peer_interest_median ps = Val 0 \<longrightarrow> interest_diff s ps = Inr 0"
    by (simp add: interest_diff_def pct_diff_zero)
  have v: "peer_views_median ps = Val 0 \<longrightarrow> views_diff s ps = Inr 0"
    by (simp add: views_diff_def pct_diff_zero)
  obtain gd where gd: "growth_diff s ps = Inr gd"
    unfolding growth_diff_def using pct_diff_defined by blast
  obtain idf where idf: "interest_diff s ps = Inr idf"
    unfolding interest_diff_def using pct_diff_defined by blast
  obtain vd where vd: "views_diff s ps = Inr vd"
    unfolding views_diff_def using pct_diff_defined by blast
  have t: "\<exists>ts. tips f s ps = Inr ts \<and>
                  ''EXCELLENT: Strong Audience Engagement ('' @ signed1 f (Val 0) @ ''% vs peers!)''
                    \<in> set ts"
    if m: "peer_interest_median ps = Val 0" and a: "col_audience_interest_rate s = 5"
  proof -
    have i0: "interest_diff s ps = Inr 0" using i m by simp
    have c: "\<not> critical_fired s ps" by (simp add: critical_fired_def m a)
    have e: "excellent_fired s ps" by (simp add: excellent_fired_def c m a)
    show ?thesis
      unfolding tips_def gd i0 vd ebind_def Let_def
      by (simp add: c e)
  qed
  show ?thesis using g i v t gd idf vd by simp
qed

theorem zero_median_guard_witness:
  "peer_interest_median
     [\<lparr>channel_name = ''p'', category = ''Music'', country = Some ''US'',
       subscriber_count = 10, view_count = 50, views_last_30_days = 0,
       videos_last_30_days = Val 0, channel_age_years = 2,
       col_growth_boost_score = 0, col_views_per_upload = 0, col_audience_interest_rate = 0\<rparr>,
      \<lparr>channel_name = ''q'', category = ''Music'', country = Some ''US'',
       subscriber_count = 20, view_count = 70, views_last_30_days = 0,
       videos_last_30_days = Val 0, channel_age_years = 2,
       col_growth_boost_score = 0, col_views_per_upload = 0, col_audience_interest_rate = 0\<rparr>,
      \<lparr>channel_name = ''a'', category = ''Music'', country = Some ''US'',
       subscriber_count = 99, view_count = 4, views_last_30_days = 5,
       videos_last_30_days = Val 1, channel_age_years = 1,
       col_growth_boost_score = 166 / 495, col_views_per_upload = 5,
       col_audience_interest_rate = 5\<rparr>] = Val 0
   \<and> interest_diff
       \<lparr>channel_name = ''a'', category = ''Music'', country = Some ''US'',
        subscriber_count = 99, view_count = 4, views_last_30_days = 5,
        videos_last_30_days = Val 1, channel_age_years = 1,
        col_growth_boost_score = 166 / 495, col_views_per_upload = 5,
        col_audience_interest_rate = 5\<rparr>
       [\<lparr>channel_name = ''p'', category = ''Music'', country = Some ''US'',
         subscriber_count = 10, view_count = 50, views_last_30_days = 0,
         videos_last_30_days = Val 0, channel_age_years = 2,
         col_growth_boost_score = 0, col_views_per_upload = 0, col_audience_interest_rate = 0\<rparr>,
        \<lparr>channel_name = ''q'', category = ''Music'', country = Some ''US'',
         subscriber_count = 20, view_count = 70, views_last_30_days = 0,
         videos_last_30_days = Val 0, channel_age_years = 2,
         col_growth_boost_score = 0, col_views_per_upload = 0, col_audience_interest_rate = 0\<rparr>,
        \<lparr>channel_name = ''a'', category = ''Music'', country = Some ''US'',
         subscriber_count = 99, view_count = 4, views_last_30_days = 5,
         videos_last_30_days = Val 1, channel_age_years = 1,
         col_growth_boost_score = 166 / 495, col_views_per_upload = 5,
         col_audience_interest_rate = 5\<rparr>] = Inr 0"
  (is "peer_interest_median ?ps = Val 0 \<and> interest_diff ?s ?ps = Inr 0")
proof (rule conjI)
  show m: "peer_interest_median ?ps = Val 0"
    by (simp add: peer_interest_median_def median_def)
  show "interest_diff ?s ?ps = Inr 0"
    by (rule zero_median_guard [THEN conjunct2, THEN conjunct1, rule_format, OF m])
qed

subsection \<open>The coercion of the upload counts\<close>





subsection \<open>The peer group\<close>







subsection \<open>The country filter\<close>

lemma cntry_codes_empty:
  "\<forall>n\<in>set cntry. n \<notin> snd ` set COUNTRY_MAP \<Longrightarrow> cntry_codes cntry = []"
  unfolding cntry_codes_def
  by (auto simp: filter_empty_conv)

lemma cntry_codes_nil: "cntry_codes [] = []"
  by (simp add: cntry_codes_def)

text \<open>
  C10. When none of the selected country names is a display name of the country map, the
  list of codes derived from the selection is empty and the country filter is skipped: both
  tabs give the table they give for an empty country selection.
\<close>

theorem unmapped_country_selection:
  assumes "\<forall>n\<in>set cntry. n \<notin> snd ` set COUNTRY_MAP"
  shows "cntry_codes cntry = []
       \<and> df_t1 df t1_cat cntry t1_age_min t1_age_max = df_t1 df t1_cat [] t1_age_min t1_age_max
       \<and> df_t2 df t2_cat cntry t2_sub t2_age_min t2_age_max
           = df_t2 df t2_cat [] t2_sub t2_age_min t2_age_max"
  by (simp add: df_t1_def df_t2_def cntry_codes_empty [OF assms] cntry_codes_nil)

theorem unmapped_country_selection_witness:
  "country_name (Some ''XK'') = ''XK''
   \<and> cntry_codes [''XK''] = []
   \<and> df_t1 [\<lparr>channel_name = ''a'', category = ''Music'', country = Some ''US'',
              subscriber_count = 10, view_count = 500, views_last_30_days = 100,
              videos_last_30_days = Val 7, channel_age_years = 1\<rparr>,
            \<lparr>channel_name = ''b'', category = ''Music'', country = Some ''XK'',
              subscriber_count = 10, view_count = 500, views_last_30_days = 100,
              videos_last_30_days = Val 7, channel_age_years = 1\<rparr>] [] [''XK''] 0 10
       = [\<lparr>channel_name = ''a'', category = ''Music'', country = Some ''US'',
              subscriber_count = 10, view_count = 500, views_last_30_days = 100,
              videos_last_30_days = Val 7, channel_age_years = 1\<rparr>,
            \<lparr>channel_name = ''b'', category = ''Music'', country = Some ''XK'',
              subscriber_count = 10, view_count = 500, views_last_30_days = 100,
              videos_last_30_days = Val 7, channel_age_years = 1\<rparr>]"
  (is "?n \<and> cntry_codes ?sel = [] \<and> df_t1 ?df [] ?sel 0 10 = ?df")
proof -
  have h: "\<forall>n\<in>set ?sel. n \<notin> snd ` set COUNTRY_MAP"
    by (simp add: COUNTRY_MAP_def)
  have n: ?n by (simp add: country_name_def COUNTRY_MAP_def)
  have c: "cntry_codes ?sel = []"
    by (rule unmapped_country_selection [OF h, THEN conjunct1])
  have "df_t1 ?df [] ?sel 0 10 = df_t1 ?df [] [] 0 10"
    by (rule unmapped_country_selection [OF h, THEN conjunct2, THEN conjunct1])
  also have "\<dots> = ?df"
    by (simp add: df_t1_def cntry_codes_nil)
  finally show ?thesis using n c by simp
qed

subsection \<open>The summary line of the recommendations\<close>

text \<open>
  A word that occurs in a line occurs in it still when a stretch without any of the word's
  letters is cut out of the line.
\<close>

lemma sublist_split_at:
  assumes "sublist p (a @ c # r)" and "c \<notin> set p"
  shows "sublist p a \<or> sublist p r"
proof -
  obtain ps ss where e: "a @ c # r = ps @ p @ ss"
    using assms(1) by (auto simp: sublist_def)
  from e obtain us where "a = ps @ us \<and> us @ c # r = p @ ss \<or> a @ us = ps \<and> c # r = us @ p @ ss"
    by (auto simp: append_eq_append_conv2)
  then show ?thesis
  proof
    assume h: "a = ps @ us \<and> us @ c # r = p @ ss"
    then obtain vs where "us = p @ vs \<and> vs @ c # r = ss \<or> us @ vs = p \<and> c # r = vs @ ss"
      by (auto simp: append_eq_append_conv2)
    then show ?thesis
    proof
      assume "us = p @ vs \<and> vs @ c # r = ss"
      then have "a = ps @ p @ vs" using h by simp
      then show ?thesis by (auto simp: sublist_def)
    next
      assume k: "us @ vs = p \<and> c # r = vs @ ss"
      show ?thesis
      proof (cases vs)
        case Nil
        then have "a = ps @ p @ []" using h k by simp
        then show ?thesis unfolding sublist_def by blast
      next
        case (Cons d vs')
        then have "c \<in> set p" using k by auto
        then show ?thesis using assms(2) by simp
      qed
    qed
  next
    assume h: "a @ us = ps \<and> c # r = us @ p @ ss"
    show ?thesis
    proof (cases us)
      case Nil
      then have cp: "c # r = p @ ss" using h by simp
      show ?thesis
      proof (cases p)
        case Nil
        then show ?thesis by simp
      next
        case (Cons d p')
        then have "c \<in> set p" using cp by auto
        then show ?thesis using assms(2) by simp
      qed
    next
      case (Cons d us')
      then have "r = us' @ p @ ss" using h by simp
      then show ?thesis unfolding sublist_def by blast
    qed
  qed
qed

lemma sublist_drop_infix:
  assumes "sublist p (a @ m @ b)" and "set m \<inter> set p = {}"
  shows "sublist p (a @ b)"
  using assms
proof (induction m arbitrary: a)
  case Nil
  then show ?case by simp
next
  case (Cons c m)
  then have "c \<notin> set p" by auto
  with Cons.prems(1) have "sublist p a \<or> sublist p (m @ b)"
    using sublist_split_at [of p a c "m @ b"] by simp
  then show ?case
  proof
    assume "sublist p a"
    then show ?thesis by (simp add: sublist_append)
  next
    assume "sublist p (m @ b)"
    then have "sublist p ([] @ m @ b)" by simp
    then have "sublist p ([] @ b)" using Cons.prems(2) by (intro Cons.IH) auto
    then show ?thesis by (simp add: sublist_append)
  qed
qed

lemma key_line_insert:
  assumes "plain m" and "\<not> key_line (a @ b)"
  shows "\<not> key_line (a @ m @ b)"
proof
  assume "key_line (a @ m @ b)"
  then have "sublist ''CRITICAL'' (a @ m @ b) \<or> sublist ''IMPORTANT'' (a @ m @ b)"
    by (simp add: key_line_def)
  then have "sublist ''CRITICAL'' (a @ b) \<or> sublist ''IMPORTANT'' (a @ b)"
  proof
    assume "sublist ''CRITICAL'' (a @ m @ b)"
    moreover have "set m \<inter> set ''CRITICAL'' = {}" using assms(1) unfolding plain_def by blast
    ultimately show ?thesis using sublist_drop_infix by blast
  next
    assume "sublist ''IMPORTANT'' (a @ m @ b)"
    moreover have "set m \<inter> set ''IMPORTANT'' = {}" using assms(1) unfolding plain_def by blast
    ultimately show ?thesis using sublist_drop_infix by blast
  qed
  then show False using assms(2) by (simp add: key_line_def)
qed

lemma key_line_insert2:
  assumes "plain m" and "plain n" and "\<not> key_line (a @ b @ c)"
  shows "\<not> key_line (a @ m @ b @ n @ c)"
proof -
  have "\<not> key_line ((a @ b) @ n @ c)"
    by (rule key_line_insert [OF assms(2)]) (use assms(3) in simp)
  then have "\<not> key_line (a @ b @ n @ c)" by simp
  then show ?thesis by (rule key_line_insert [OF assms(1)])
qed

lemma key_line_prefix: "key_line a \<Longrightarrow> key_line (a @ b)"
  by (auto simp: key_line_def sublist_append)

lemma plain_digit:
  assumes "k < 10"
  shows "plain [''0123456789'' ! k]"
proof -
  have "k \<in> {0, 1, 2, 3, 4, 5, 6, 7, 8, 9}" using assms by auto
  then show ?thesis by (auto simp: plain_def)
qed

lemma plain_append: "plain a \<Longrightarrow> plain b \<Longrightarrow> plain (a @ b)"
  by (auto simp: plain_def)

lemma plain_str_nat: "plain (str_nat n)"
proof (induction n rule: str_nat.induct)
  case (1 n)
  show ?case
  proof (cases "n < 10")
    case True
    then show ?thesis
      by (subst str_nat.simps) (simp add: plain_digit)
  next
    case False
    have "plain [''0123456789'' ! (n mod 10)]"
      by (rule plain_digit) simp
    then have "plain (str_nat (n div 10) @ [''0123456789'' ! (n mod 10)])"
      using 1 False by (intro plain_append) simp_all
    then show ?thesis
      using False by (subst str_nat.simps) simp
  qed
qed

lemma line_critical: "key_line (''CRITICAL: Improve Audience Engagement (You're '' @ x)"
  by (rule key_line_prefix) (simp add: key_line_def sublist_code prefix_code)

lemma line_important: "key_line (''IMPORTANT: Optimize Click-Through Rate (You're '' @ x)"
  by (rule key_line_prefix) (simp add: key_line_def sublist_code prefix_code)

lemma line_rate:
  assumes "plain x" and "plain y"
  shows "\<not> key_line (''   '' @ bullet @ '' Your audience interest rate: **'' @ x
                       @ ''%** vs peer average: **'' @ y @ ''%**'')"
proof -
  have "\<not> key_line ((''   '' @ bullet @ '' Your audience interest rate: **'')
                      @ ''%** vs peer average: **'' @ ''%**'')"
    by (simp add: key_line_def sublist_code prefix_code bullet_def)
  from key_line_insert2 [OF assms this] show ?thesis by simp
qed

lemma line_only:
  assumes "plain x"
  shows "\<not> key_line (''   '' @ bullet @ '' Only **'' @ x
                       @ ''%** of your subscribers watched your recent videos'')"
proof -
  have "\<not> key_line ((''   '' @ bullet @ '' Only **'')
                      @ ''%** of your subscribers watched your recent videos'')"
    by (simp add: key_line_def sublist_code prefix_code bullet_def)
  from key_line_insert [OF assms this] show ?thesis by simp
qed

lemma line_actions:
  "\<not> key_line (''   '' @ bullet @ '' Action: Improve your first 30 seconds - use pattern interrupts, compelling hooks, and faster pacing'')"
  "\<not> key_line (''   '' @ bullet @ '' Action: Survey your audience to understand what content they want more of'')"
  "\<not> key_line (''   '' @ bullet @ '' Keep doing what you're doing - your content resonates with your audience'')"
  "\<not> key_line (''   '' @ bullet @ '' Action: A/B test thumbnails - use high contrast, faces with emotion, and bold text'')"
  "\<not> key_line ''CONSIDER: Increase Upload Frequency''"
  by (simp_all add: key_line_def sublist_code prefix_code bullet_def)

lemma line_excellent:
  assumes "plain x"
  shows "\<not> key_line (''EXCELLENT: Strong Audience Engagement ('' @ x @ ''% vs peers!)'')"
proof -
  have "\<not> key_line (''EXCELLENT: Strong Audience Engagement ('' @ ''% vs peers!)'')"
    by (simp add: key_line_def sublist_code prefix_code)
  from key_line_insert [OF assms this] show ?thesis by simp
qed

lemma line_outstanding:
  assumes "plain x"
  shows "\<not> key_line (''   '' @ bullet @ '' Your audience interest rate: **'' @ x
                       @ ''%** (Outstanding!)'')"
proof -
  have "\<not> key_line ((''   '' @ bullet @ '' Your audience interest rate: **'')
                      @ ''%** (Outstanding!)'')"
    by (simp add: key_line_def sublist_code prefix_code bullet_def)
  from key_line_insert [OF assms this] show ?thesis by simp
qed

lemma line_views:
  assumes "plain x" and "plain y"
  shows "\<not> key_line (''   '' @ bullet @ '' Your views per upload: **'' @ x
                       @ ''** vs peer average: **'' @ y @ ''**'')"
proof -
  have "\<not> key_line ((''   '' @ bullet @ '' Your views per upload: **'')
                      @ ''** vs peer average: **'' @ ''**'')"
    by (simp add: key_line_def sublist_code prefix_code bullet_def)
  from key_line_insert2 [OF assms this] show ?thesis by simp
qed

lemma line_gain:
  assumes "plain x"
  shows "\<not> key_line (''   '' @ bullet @ '' Potential gain: **'' @ x
                       @ ''** extra views/month'')"
proof -
  have "\<not> key_line ((''   '' @ bullet @ '' Potential gain: **'') @ ''** extra views/month'')"
    by (simp add: key_line_def sublist_code prefix_code bullet_def)
  from key_line_insert [OF assms this] show ?thesis by simp
qed

lemma line_opportunity:
  assumes "plain x"
  shows "\<not> key_line (''OPPORTUNITY: Accelerate Channel Growth (You're '' @ x
                       @ ''% below peers)'')"
proof -
  have "\<not> key_line (''OPPORTUNITY: Accelerate Channel Growth (You're '' @ ''% below peers)'')"
    by (simp add: key_line_def sublist_code prefix_code)
  from key_line_insert [OF assms this] show ?thesis by simp
qed

lemma line_comparing:
  "\<not> key_line (''   '' @ bullet @ '' Comparing against **'' @ str_nat n
                  @ ''** similar channels in your category'')"
proof -
  have "\<not> key_line ((''   '' @ bullet @ '' Comparing against **'')
                      @ ''** similar channels in your category'')"
    by (simp add: key_line_def sublist_code prefix_code bullet_def)
  from key_line_insert [OF plain_str_nat this] show ?thesis by simp
qed

text \<open>
  When the formatted numbers have none of the letters of the two words and the category
  line contains neither word, the list opens with the summary the specification describes:
  the overall-positive line when neither the CRITICAL nor the IMPORTANT finding fired, and
  otherwise the focus-areas line with the number of these two findings that fired.
\<close>

lemma tips_summary:
  assumes f: "plain_fmt f"
    and cat: "\<not> key_line (''Category Context: '' @ category s)"
  shows "\<exists>ts. tips f s ps =
           Inr ((if \<not> critical_fired s ps \<and> \<not> important_fired s ps
                 then ''OVERALL: Your channel is performing well! Keep refining based on these insights.''
                 else ''FOCUS AREAS: ''
                        @ str_nat ((if critical_fired s ps then 1 else 0)
                                    + (if important_fired s ps then 1 else 0))
                        @ '' key improvement(s) identified - Prioritize these for maximum impact!'')
                # ts)"
proof -
  obtain gd where gd: "growth_diff s ps = Inr gd"
    unfolding growth_diff_def using pct_diff_defined by blast
  obtain idf where idf: "interest_diff s ps = Inr idf"
    unfolding interest_diff_def using pct_diff_defined by blast
  obtain vd where vd: "views_diff s ps = Inr vd"
    unfolding views_diff_def using pct_diff_defined by blast
  have p: "plain (fixed1 f c)" "plain (fixed2 f c)" "plain (signed1 f c)" "plain (grouped0 f c)" for c
    using f unfolding plain_fmt_def by blast+
  note lines = line_critical line_important line_rate [OF p(2) p(2)] line_only [OF p(1)]
    line_actions line_excellent [OF p(3)] line_outstanding [OF p(2)]
    line_views [OF p(4) p(4)] line_gain [OF p(4)] line_opportunity [OF p(1)] line_comparing cat
  show ?thesis
    unfolding tips_def gd idf vd ebind_def Let_def
    by (simp add: lines excellent_fired_def del: append.simps)
qed

text \<open>
  C7. The summary line is to say that all is well when neither the CRITICAL nor the
  IMPORTANT finding fired, and otherwise to count those of the two that fired. The code
  counts the lines of the list that contain one of the two words, and the list has a line
  with the channel's category in it. A table with the single channel "a" of the category
  "IMPORTANT NEWS" gets its metrics, the channel is selected and is its own only peer;
  neither finding fires, and yet the list opens with the focus-areas line counting 1.
\<close>

theorem tips_summary_counts_category_line:
  "add_metrics (df_t1
     [\<lparr>channel_name = ''a'', category = ''IMPORTANT NEWS'', country = Some ''US'',
       subscriber_count = 0, view_count = 0, views_last_30_days = 100,
       videos_last_30_days = Val 2, channel_age_years = 1\<rparr>] [] [] 0 10)
   = Inr [\<lparr>channel_name = ''a'', category = ''IMPORTANT NEWS'', country = Some ''US'',
      subscriber_count = 0, view_count = 0, views_last_30_days = 100,
      videos_last_30_days = Val 2, channel_age_years = 1,
      col_growth_boost_score = 100, col_views_per_upload = 50,
      col_audience_interest_rate = 10000\<rparr>]
   \<and> sel_r
     [\<lparr>channel_name = ''a'', category = ''IMPORTANT NEWS'', country = Some ''US'',
      subscriber_count = 0, view_count = 0, views_last_30_days = 100,
      videos_last_30_days = Val 2, channel_age_years = 1,
      col_growth_boost_score = 100, col_views_per_upload = 50,
      col_audience_interest_rate = 10000\<rparr>] ''a''
   = Inr \<lparr>channel_name = ''a'', category = ''IMPORTANT NEWS'', country = Some ''US'',
      subscriber_count = 0, view_count = 0, views_last_30_days = 100,
      videos_last_30_days = Val 2, channel_age_years = 1,
      col_growth_boost_score = 100, col_views_per_upload = 50,
      col_audience_interest_rate = 10000\<rparr>
   \<and> peers
     [\<lparr>channel_name = ''a'', category = ''IMPORTANT NEWS'', country = Some ''US'',
      subscriber_count = 0, view_count = 0, views_last_30_days = 100,
      videos_last_30_days = Val 2, channel_age_years = 1,
      col_growth_boost_score = 100, col_views_per_upload = 50,
      col_audience_interest_rate = 10000\<rparr>]
     \<lparr>channel_name = ''a'', category = ''IMPORTANT NEWS'', country = Some ''US'',
      subscriber_count = 0, view_count = 0, views_last_30_days = 100,
      videos_last_30_days = Val 2, channel_age_years = 1,
      col_growth_boost_score = 100, col_views_per_upload = 50,
      col_audience_interest_rate = 10000\<rparr>
   = [\<lparr>channel_name = ''a'', category = ''IMPORTANT NEWS'', country = Some ''US'',
      subscriber_count = 0, view_count = 0, views_last_30_days = 100,
      videos_last_30_days = Val 2, channel_age_years = 1,
      col_growth_boost_score = 100, col_views_per_upload = 50,
      col_audience_interest_rate = 10000\<rparr>]
   \<and> tips f
     \<lparr>channel_name = ''a'', category = ''IMPORTANT NEWS'', country = Some ''US'',
      subscriber_count = 0, view_count = 0, views_last_30_days = 100,
      videos_last_30_days = Val 2, channel_age_years = 1,
      col_growth_boost_score = 100, col_views_per_upload = 50,
      col_audience_interest_rate = 10000\<rparr>
     [\<lparr>channel_name = ''a'', category = ''IMPORTANT NEWS'', country = Some ''US'',
      subscriber_count = 0, view_count = 0, views_last_30_days = 100,
      videos_last_30_days = Val 2, channel_age_years = 1,
      col_growth_boost_score = 100, col_views_per_upload = 50,
      col_audience_interest_rate = 10000\<rparr>]
   = Inr [''FOCUS AREAS: 1 key improvement(s) identified - Prioritize these for maximum impact!'',
          ''Category Context: IMPORTANT NEWS'',
          ''   '' @ bullet @ '' Comparing against **1** similar channels in your category'']
   \<and> \<not> critical_fired
     \<lparr>channel_name = ''a'', category = ''IMPORTANT NEWS'', country = Some ''US'',
      subscriber_count = 0, view_count = 0, views_last_30_days = 100,
      videos_last_30_days = Val 2, channel_age_years = 1,
      col_growth_boost_score = 100, col_views_per_upload = 50,
      col_audience_interest_rate = 10000\<rparr>
     [\<lparr>channel_name = ''a'', category = ''IMPORTANT NEWS'', country = Some ''US'',
      subscriber_count = 0, view_count = 0, views_last_30_days = 100,
      videos_last_30_days = Val 2, channel_age_years = 1,
      col_growth_boost_score = 100, col_views_per_upload = 50,
      col_audience_interest_rate = 10000\<rparr>]
   \<and> \<not> important_fired
     \<lparr>channel_name = ''a'', category = ''IMPORTANT NEWS'', country = Some ''US'',
      subscriber_count = 0, view_count = 0, views_last_30_days = 100,
      videos_last_30_days = Val 2, channel_age_years = 1,
      col_growth_boost_score = 100, col_views_per_upload = 50,
      col_audience_interest_rate = 10000\<rparr>
     [\<lparr>channel_name = ''a'', category = ''IMPORTANT NEWS'', country = Some ''US'',
      subscriber_count = 0, view_count = 0, views_last_30_days = 100,
      videos_last_30_days = Val 2, channel_age_years = 1,
      col_growth_boost_score = 100, col_views_per_upload = 50,
      col_audience_interest_rate = 10000\<rparr>]"
  (is "add_metrics ?raw = Inr ?df \<and> sel_r ?df ''a'' = Inr ?s \<and> peers ?df ?s = ?df
       \<and> tips f ?s ?df = Inr ?lines \<and> \<not> critical_fired ?s ?df \<and> \<not> important_fired ?s ?df")
proof (intro conjI)
  show "add_metrics ?raw = Inr ?df"
    by (simp add: add_metrics_def df_t1_def cntry_codes_def growth_boost_score_def
        views_per_upload_def audience_interest_rate_def true_div_def ebind_def channel.extend_def)
  show "sel_r ?df ''a'' = Inr ?s"
    by (simp add: sel_r_def iloc0_def)
  show "peers ?df ?s = ?df"
    by (simp add: peers_def between_def)
  show c: "\<not> critical_fired ?s ?df"
    by (simp add: critical_fired_def peer_interest_median_def median_def)
  show i: "\<not> important_fired ?s ?df"
    by (simp add: important_fired_def peer_views_median_def median_def)
  show "tips f ?s ?df = Inr ?lines"
    by (simp add: tips_def growth_diff_def interest_diff_def views_diff_def pct_diff_def
      peer_growth_median_def peer_interest_median_def peer_views_median_def peer_upload_freq_def
      median_def true_div_def ebind_def critical_fired_def excellent_fired_def important_fired_def
      opportunity_fired_def consider_fired_def key_line_def sublist_code prefix_code bullet_def
      str_nat.simps Let_def)
qed

end
